theory Spec2Isabelle
  imports Complex_Main "HOL-Library.AList" "HOL-Library.Sublist"
begin

section \<open>Python values and helpers\<close>

text \<open>
  The repository is Python. Values that come out of \<^verbatim>\<open>json.loads\<close> are dynamically
  typed, so they are modelled by one datatype; \<open>JNull\<close> also stands for Python's
  \<^verbatim>\<open>None\<close>. A dict keeps its insertion order, so an object is an association list.
  Numbers are exact reals (the floats the source writes, 0.0, 0.5 and 1.0, are exact).
\<close>

datatype json =
    JNull
  | JBool bool
  | JNum real
  | JStr string
  | JArr "json list"
  | JObj "(string \<times> json) list"

datatype exc_class =
  APIError | TypeError | ValueError | AttributeError | JSONDecodeError | OtherException

text \<open>An exception is its class and its message (\<^verbatim>\<open>str(e)\<close>).\<close>

datatype py_exception = PyExc exc_class string

fun exc_str :: "py_exception \<Rightarrow> string" where
  "exc_str (PyExc c msg) = msg"

text \<open>\<^verbatim>\<open>xs[start:]\<close> and \<^verbatim>\<open>xs[:stop]\<close> for Python integers, negative ones counting
  from the end.\<close>

definition py_slice_from :: "'a list \<Rightarrow> int \<Rightarrow> 'a list" where
  "py_slice_from xs start =
     (if start < 0 then drop (nat (int (length xs) + start)) xs else drop (nat start) xs)"

definition py_slice_to :: "'a list \<Rightarrow> int \<Rightarrow> 'a list" where
  "py_slice_to xs stop =
     (if stop < 0 then take (nat (int (length xs) + stop)) xs else take (nat stop) xs)"

text \<open>\<^verbatim>\<open>sep.join(xs)\<close>\<close>

fun join :: "string \<Rightarrow> string list \<Rightarrow> string" where
  "join sep [] = []"
| "join sep [x] = x"
| "join sep (x # y # ys) = x @ sep @ join sep (y # ys)"

text \<open>utils.truncate (the name \<open>truncate\<close> is taken by the record package): \<^verbatim>\<open>text[:length] + "..." if len(text) > length else text\<close>\<close>

definition truncate_text :: "string \<Rightarrow> int \<Rightarrow> string" where
  "truncate_text text n = (if int (length text) > n then py_slice_to text n @ ''...'' else text)"

text \<open>\<^verbatim>\<open>d.get(k)\<close>, \<^verbatim>\<open>d.get(k, default)\<close> and \<^verbatim>\<open>d.setdefault(k, v)\<close> on a dict.\<close>

definition dict_get :: "(string \<times> json) list \<Rightarrow> string \<Rightarrow> json" where
  "dict_get d k = (case map_of d k of None \<Rightarrow> JNull | Some v \<Rightarrow> v)"

definition dict_get_default :: "(string \<times> json) list \<Rightarrow> string \<Rightarrow> json \<Rightarrow> json" where
  "dict_get_default d k dflt = (case map_of d k of None \<Rightarrow> dflt | Some v \<Rightarrow> v)"

definition setdefault :: "string \<Rightarrow> json \<Rightarrow> (string \<times> json) list \<Rightarrow> (string \<times> json) list" where
  "setdefault k v d = (case map_of d k of None \<Rightarrow> d @ [(k, v)] | Some _ \<Rightarrow> d)"

text \<open>
  What a \<^verbatim>\<open>for x in v\<close> loop runs over: the elements of a list, the characters of a
  string, the keys of a dict; on None, a bool or a number Python raises TypeError.
\<close>

fun py_iter :: "json \<Rightarrow> py_exception + json list" where
  "py_iter (JArr xs) = Inr xs"
| "py_iter (JStr s) = Inr (map (\<lambda>c. JStr [c]) s)"
| "py_iter (JObj kvs) = Inr (map (\<lambda>kv. JStr (fst kv)) kvs)"
| "py_iter v = Inl (PyExc TypeError ''object is not iterable'')"

text \<open>Whether \<^verbatim>\<open>v[:50]\<close> evaluates (a string or a list) or raises.\<close>

fun py_sliceable :: "json \<Rightarrow> bool" where
  "py_sliceable (JStr s) = True"
| "py_sliceable (JArr xs) = True"
| "py_sliceable v = False"

text \<open>
  \<^verbatim>\<open>str(v)\<close>: fixed for strings, None and booleans; the rendering of numbers, lists and
  dicts is taken as a parameter.
\<close>

fun py_str :: "(json \<Rightarrow> string) \<Rightarrow> json \<Rightarrow> string" where
  "py_str repr (JStr s) = s"
| "py_str repr JNull = ''None''"
| "py_str repr (JBool b) = (if b then ''True'' else ''False'')"
| "py_str repr v = repr v"

section \<open>constants.py\<close>

text \<open>The module-level flags the core reads, gathered in one record, and the values the
  source gives them.\<close>

record constants =
  SAFETY_MODE :: bool
  BLOCK_DANGEROUS_CODE :: bool
  CACHE_ENABLED :: bool

definition source_constants :: constants where
  "source_constants = \<lparr> SAFETY_MODE = True, BLOCK_DANGEROUS_CODE = True, CACHE_ENABLED = True \<rparr>"

definition GOAL_PRIORITY_MEDIUM :: int where "GOAL_PRIORITY_MEDIUM = 5"

definition STATUS_ACTIVE :: string where "STATUS_ACTIVE = ''active''"
definition STATUS_COMPLETED :: string where "STATUS_COMPLETED = ''completed''"
definition STATUS_BLOCKED :: string where "STATUS_BLOCKED = ''blocked''"
definition STATUS_FAILED :: string where "STATUS_FAILED = ''failed''"

section \<open>memory.py: MemoryManager\<close>

text \<open>
  A memory event is the dict \<^verbatim>\<open>add\<close> builds. The manager holds the ordered list, the
  rows mirrored into the SQLite table (event type, untruncated content, metadata) and its
  two counters. Clock readings are arguments. The insert into the SQLite table is taken to
  succeed. Writing the JSON file changes nothing in memory and swallows its own failures,
  so it has no counterpart here.
\<close>

record memory_event =
  ev_type :: string
  ev_content :: string
  ev_timestamp :: string
  ev_metadata :: "(string \<times> json) list"

record memory_manager =
  mm_memory :: "memory_event list"
  mm_use_sqlite :: bool
  mm_db :: "(string \<times> string \<times> (string \<times> json) list) list"
  mm_added :: nat
  mm_retrieved :: nat

definition memory_init :: "memory_event list \<Rightarrow> bool \<Rightarrow> memory_manager" where
  "memory_init loaded use_db =
     \<lparr> mm_memory = loaded, mm_use_sqlite = use_db, mm_db = [], mm_added = 0, mm_retrieved = 0 \<rparr>"

text \<open>\<^verbatim>\<open>add(event_type, content, metadata)\<close>; \<open>content\<close> is \<^verbatim>\<open>str(content)\<close>.\<close>

definition memory_add ::
  "memory_manager \<Rightarrow> string \<Rightarrow> string \<Rightarrow> (string \<times> json) list option \<Rightarrow> string \<Rightarrow> memory_manager" where
  "memory_add mm event_type content metadata now =
     (let event = \<lparr> ev_type = event_type, ev_content = truncate_text content 1000,
                     ev_timestamp = now,
                     ev_metadata = (case metadata of None \<Rightarrow> [] | Some m \<Rightarrow> m) \<rparr>
      in mm\<lparr> mm_memory := mm_memory mm @ [event],
             mm_added := mm_added mm + 1,
             mm_db := (if mm_use_sqlite mm
                       then mm_db mm @ [(event_type, content, case metadata of None \<Rightarrow> [] | Some m \<Rightarrow> m)]
                       else mm_db mm) \<rparr>)"

text \<open>\<^verbatim>\<open>return [m["content"] for m in self.memory[-count:]]\<close>\<close>

definition get_recent :: "memory_manager \<Rightarrow> int \<Rightarrow> string list \<times> memory_manager" where
  "get_recent mm count =
     (map ev_content (py_slice_from (mm_memory mm) (- count)),
      mm\<lparr> mm_retrieved := mm_retrieved mm + 1 \<rparr>)"

definition get_by_type :: "memory_manager \<Rightarrow> string \<Rightarrow> memory_event list \<times> memory_manager" where
  "get_by_type mm event_type =
     (filter (\<lambda>m. ev_type m = event_type) (mm_memory mm),
      mm\<lparr> mm_retrieved := mm_retrieved mm + 1 \<rparr>)"

text \<open>The part of \<^verbatim>\<open>get_stats\<close> the report is read for.\<close>

definition memory_total_events :: "memory_manager \<Rightarrow> nat" where
  "memory_total_events mm = length (mm_memory mm)"

section \<open>goals.py: GoalManager\<close>

text \<open>
  A goal is the dict \<^verbatim>\<open>add\<close> builds; its status is the string the source stores. The
  text is whatever value the caller passes (the loop passes elements of the oracle's
  \<^verbatim>\<open>goals_update\<close>). Clock readings are arguments: \<open>stamp\<close> is the rendering of
  \<^verbatim>\<open>datetime.now().timestamp()\<close> inside the id, \<open>now\<close> the ISO timestamp.
\<close>

record goal =
  g_id :: string
  g_text :: json
  g_priority :: int
  g_status :: string
  g_created :: string
  g_completed :: "string option"
  g_attempts :: int

record goal_manager =
  gm_goals :: "goal list"
  gm_created :: nat
  gm_completed :: nat
  gm_failed :: nat

definition goals_init :: "goal list \<Rightarrow> goal_manager" where
  "goals_init loaded = \<lparr> gm_goals = loaded, gm_created = 0, gm_completed = 0, gm_failed = 0 \<rparr>"

text \<open>Decimal rendering of a length, for the id \<^verbatim>\<open>f"goal_{len(self.goals)}_{...}"\<close>.\<close>

definition digit_char :: "nat \<Rightarrow> char" where
  "digit_char d = (''0123456789'' ! d)"

function str_nat :: "nat \<Rightarrow> string" where
  "str_nat n = (if n < 10 then [digit_char n] else str_nat (n div 10) @ [digit_char (n mod 10)])"
  by pat_completeness auto
termination
  by (relation "measure id") auto

text \<open>
  \<^verbatim>\<open>add\<close> appends the goal and counts it, then logs \<^verbatim>\<open>goal[:50]\<close>: for a text that cannot
  be sliced the call raises TypeError after the goal is stored.
\<close>

definition goal_add ::
  "goal_manager \<Rightarrow> json \<Rightarrow> int \<Rightarrow> string \<Rightarrow> string \<Rightarrow> (py_exception + string) \<times> goal_manager" where
  "goal_add gm goal_text priority stamp now =
     (let goal_id = ''goal_'' @ str_nat (length (gm_goals gm)) @ ''_'' @ stamp;
          gm' = gm\<lparr> gm_goals := gm_goals gm @
                       [\<lparr> g_id = goal_id, g_text = goal_text, g_priority = priority,
                          g_status = STATUS_ACTIVE, g_created = now, g_completed = None,
                          g_attempts = 0 \<rparr>],
                    gm_created := gm_created gm + 1 \<rparr>
      in if py_sliceable goal_text then (Inr goal_id, gm')
         else (Inl (PyExc TypeError ''object is not subscriptable''), gm'))"

text \<open>
  \<^verbatim>\<open>for goal in self.goals: if goal["id"] == goal_id: ...; break\<close>: the first goal with
  the id is rewritten by \<open>f\<close>; \<open>None\<close> when no goal has it.
\<close>

fun update_first_goal :: "(goal \<Rightarrow> goal) \<Rightarrow> string \<Rightarrow> goal list \<Rightarrow> goal list option" where
  "update_first_goal f goal_id [] = None"
| "update_first_goal f goal_id (g # gs) =
     (if g_id g = goal_id then Some (f g # gs)
      else map_option ((#) g) (update_first_goal f goal_id gs))"

definition complete :: "goal_manager \<Rightarrow> string \<Rightarrow> string \<Rightarrow> goal_manager" where
  "complete gm goal_id now =
     (case update_first_goal
             (\<lambda>g. g\<lparr> g_status := STATUS_COMPLETED, g_completed := Some now \<rparr>) goal_id (gm_goals gm) of
        None \<Rightarrow> gm
      | Some gs \<Rightarrow> gm\<lparr> gm_goals := gs, gm_completed := gm_completed gm + 1 \<rparr>)"

definition fail :: "goal_manager \<Rightarrow> string \<Rightarrow> goal_manager" where
  "fail gm goal_id =
     (case update_first_goal
             (\<lambda>g. g\<lparr> g_status := STATUS_FAILED, g_attempts := g_attempts g + 1 \<rparr>) goal_id (gm_goals gm) of
        None \<Rightarrow> gm
      | Some gs \<Rightarrow> gm\<lparr> gm_goals := gs, gm_failed := gm_failed gm + 1 \<rparr>)"

definition block :: "goal_manager \<Rightarrow> string \<Rightarrow> goal_manager" where
  "block gm goal_id =
     (case update_first_goal (\<lambda>g. g\<lparr> g_status := STATUS_BLOCKED \<rparr>) goal_id (gm_goals gm) of
        None \<Rightarrow> gm
      | Some gs \<Rightarrow> gm\<lparr> gm_goals := gs \<rparr>)"

definition get_active :: "goal_manager \<Rightarrow> json list" where
  "get_active gm = map g_text (filter (\<lambda>g. g_status g = STATUS_ACTIVE) (gm_goals gm))"

definition get_completed :: "goal_manager \<Rightarrow> json list" where
  "get_completed gm = map g_text (filter (\<lambda>g. g_status g = STATUS_COMPLETED) (gm_goals gm))"

record goal_stats =
  gs_created :: nat
  gs_completed :: nat
  gs_failed :: nat
  gs_active :: nat
  gs_total :: nat

definition goal_get_stats :: "goal_manager \<Rightarrow> goal_stats" where
  "goal_get_stats gm =
     \<lparr> gs_created = gm_created gm, gs_completed = gm_completed gm, gs_failed = gm_failed gm,
       gs_active = length (get_active gm), gs_total = length (gm_goals gm) \<rparr>"

text \<open>One call of the three status methods, and a sequence of such calls.\<close>

datatype goal_call = Complete string string | Fail string | Block string

fun apply_goal_call :: "goal_manager \<Rightarrow> goal_call \<Rightarrow> goal_manager" where
  "apply_goal_call gm (Complete goal_id now) = complete gm goal_id now"
| "apply_goal_call gm (Fail goal_id) = fail gm goal_id"
| "apply_goal_call gm (Block goal_id) = block gm goal_id"

section \<open>permissions.py: PermissionManager\<close>

text \<open>
  The nine regular expressions of \<^verbatim>\<open>DANGEROUS_PATTERNS\<close> use three constructs only: a
  literal character (some escaped), the class \<^verbatim>\<open>["\']\<close>, and \<^verbatim>\<open>\s+\<close>. A pattern is
  kept as its source text (the warning quotes it) with its sequence of atoms.
  Characters stand for code points below 256; \<^verbatim>\<open>re.IGNORECASE\<close> folds A-Z there, and
  \<^verbatim>\<open>\s\<close> matches the whitespace code points listed in \<open>is_space\<close>.
\<close>

datatype atom = Lit char | OneOf "char list" | Spaces

type_synonym pattern = "string \<times> atom list"

definition lower_char :: "char \<Rightarrow> char" where
  "lower_char c =
     (case map_of (zip ''ABCDEFGHIJKLMNOPQRSTUVWXYZ'' ''abcdefghijklmnopqrstuvwxyz'') c of
        None \<Rightarrow> c | Some l \<Rightarrow> l)"

definition is_space :: "char \<Rightarrow> bool" where
  "is_space c \<longleftrightarrow>
     c \<in> set [CHR 0x09, CHR 0x0A, CHR 0x0B, CHR 0x0C, CHR 0x0D, CHR 0x1C, CHR 0x1D, CHR 0x1E,
              CHR 0x1F, CHR 0x20, CHR 0x85, CHR 0xA0]"

text \<open>Whether the atoms match a prefix of the text.\<close>

fun match_here :: "atom list \<Rightarrow> string \<Rightarrow> bool" where
  "match_here [] s = True"
| "match_here (a # as) [] = False"
| "match_here (Lit c # as) (x # xs) = (lower_char x = lower_char c \<and> match_here as xs)"
| "match_here (OneOf cs # as) (x # xs) = (lower_char x \<in> set (map lower_char cs) \<and> match_here as xs)"
| "match_here (Spaces # as) (x # xs) =
     (is_space x \<and> (match_here (Spaces # as) xs \<or> match_here as xs))"

text \<open>\<^verbatim>\<open>re.search(pattern, code, re.IGNORECASE)\<close> as a truth value: a match at some position.\<close>

fun re_search :: "atom list \<Rightarrow> string \<Rightarrow> bool" where
  "re_search p [] = match_here p []"
| "re_search p (x # xs) = (match_here p (x # xs) \<or> re_search p xs)"

definition lits :: "string \<Rightarrow> atom list" where
  "lits s = map Lit s"

definition DANGEROUS_PATTERNS :: "pattern list" where
  "DANGEROUS_PATTERNS =
     [(''__import__'', lits ''__import__''),
      (''eval'' @ [CHR 0x5C] @ ''('', lits ''eval(''),
      (''exec'' @ [CHR 0x5C] @ ''('', lits ''exec(''),
      (''compile'' @ [CHR 0x5C] @ ''('', lits ''compile(''),
      (''os'' @ [CHR 0x5C] @ ''.system'', lits ''os.system''),
      (''subprocess'' @ [CHR 0x5C] @ ''.call'', lits ''subprocess.call''),
      (''open'' @ [CHR 0x5C] @ ''(['' @ [CHR 0x22, CHR 0x5C, CHR 0x27] @ '']'',
         lits ''open('' @ [OneOf [CHR 0x22, CHR 0x27]]),
      (''rm'' @ [CHR 0x5C] @ ''s+-rf'', lits ''rm'' @ [Spaces] @ lits ''-rf''),
      (''del'' @ [CHR 0x5C] @ ''s+'', lits ''del'' @ [Spaces])]"

record permission_manager =
  pm_blocked_count :: int
  pm_allowed_count :: int
  pm_warnings :: "string list"

definition permissions_init :: permission_manager where
  "permissions_init = \<lparr> pm_blocked_count = 0, pm_allowed_count = 0, pm_warnings = [] \<rparr>"

text \<open>
  \<^verbatim>\<open>check_code_safety\<close>: the loop over the patterns returns at the first one that matches,
  which is what \<open>find\<close> yields.
\<close>

definition check_code_safety ::
  "constants \<Rightarrow> permission_manager \<Rightarrow> string \<Rightarrow> bool \<times> permission_manager" where
  "check_code_safety c pm code =
     (if \<not> SAFETY_MODE c then (True, pm)
      else case find (\<lambda>p. re_search (snd p) code) DANGEROUS_PATTERNS of
             Some p \<Rightarrow>
               (\<not> BLOCK_DANGEROUS_CODE c,
                pm\<lparr> pm_warnings := pm_warnings pm @ [''Dangerous pattern detected: '' @ fst p],
                    pm_blocked_count := pm_blocked_count pm + 1 \<rparr>)
           | None \<Rightarrow> (True, pm\<lparr> pm_allowed_count := pm_allowed_count pm + 1 \<rparr>))"

section \<open>cache.py: CacheManager\<close>

text \<open>
  The cache dict is an association list in insertion order with distinct keys:
  \<^verbatim>\<open>cache[key] = e\<close> is \<open>AList.update\<close> (in place for a key that is present, appended
  otherwise) and \<^verbatim>\<open>del cache[key]\<close> is \<open>AList.delete\<close>. A datetime is a count of
  microseconds; the clock readings of \<^verbatim>\<open>set\<close> (it calls \<^verbatim>\<open>datetime.now()\<close> twice) are
  arguments.
\<close>

record 'v cache_entry =
  ce_value :: 'v
  ce_created_at :: int
  ce_expires_at :: int
  ce_hits :: int

record 'v cache_manager =
  cm_cache :: "(string \<times> 'v cache_entry) list"
  cm_max_size :: int
  cm_ttl_seconds :: int

definition cache_init :: "int \<Rightarrow> int \<Rightarrow> 'v cache_manager" where
  "cache_init max_size ttl_seconds =
     \<lparr> cm_cache = [], cm_max_size = max_size, cm_ttl_seconds = ttl_seconds \<rparr>"

text \<open>
  \<^verbatim>\<open>min(self.cache.keys(), key=lambda k: self.cache[k]["created_at"])\<close> keeps the first
  key among those with the least \<^verbatim>\<open>created_at\<close>; on an empty dict it raises ValueError.
\<close>

fun min_created :: "(string \<times> 'v cache_entry) \<Rightarrow> (string \<times> 'v cache_entry) list \<Rightarrow> (string \<times> 'v cache_entry)" where
  "min_created best [] = best"
| "min_created best (p # ps) =
     min_created (if ce_created_at (snd p) < ce_created_at (snd best) then p else best) ps"

definition oldest_key :: "(string \<times> 'v cache_entry) list \<Rightarrow> py_exception + string" where
  "oldest_key al =
     (case al of [] \<Rightarrow> Inl (PyExc ValueError ''min() arg is an empty sequence'')
      | p # ps \<Rightarrow> Inr (fst (min_created p ps)))"

definition evict_oldest :: "'v cache_manager \<Rightarrow> py_exception + 'v cache_manager" where
  "evict_oldest cm =
     (case oldest_key (cm_cache cm) of
        Inl e \<Rightarrow> Inl e
      | Inr k \<Rightarrow> Inr (cm\<lparr> cm_cache := AList.delete k (cm_cache cm) \<rparr>))"

text \<open>\<^verbatim>\<open>ttl or self.ttl_seconds\<close>\<close>

definition ttl_or :: "int option \<Rightarrow> int \<Rightarrow> int" where
  "ttl_or ttl dflt = (case ttl of None \<Rightarrow> dflt | Some t \<Rightarrow> if t = 0 then dflt else t)"

text \<open>The entry \<^verbatim>\<open>set\<close> stores.\<close>

definition new_entry :: "'v cache_manager \<Rightarrow> 'v \<Rightarrow> int option \<Rightarrow> int \<Rightarrow> int \<Rightarrow> 'v cache_entry" where
  "new_entry cm val ttl now1 now2 =
     \<lparr> ce_value = val, ce_created_at = now1,
       ce_expires_at = now2 + 1000000 * ttl_or ttl (cm_ttl_seconds cm), ce_hits = 0 \<rparr>"

definition cache_set ::
  "constants \<Rightarrow> 'v cache_manager \<Rightarrow> string \<Rightarrow> 'v \<Rightarrow> int option \<Rightarrow> int \<Rightarrow> int \<Rightarrow> py_exception + 'v cache_manager" where
  "cache_set c cm key val ttl now1 now2 =
     (if \<not> CACHE_ENABLED c then Inr cm
      else case (if int (length (cm_cache cm)) \<ge> cm_max_size cm then evict_oldest cm else Inr cm) of
             Inl e \<Rightarrow> Inl e
           | Inr cm' \<Rightarrow>
               Inr (cm'\<lparr> cm_cache :=
                      AList.update key (new_entry cm val ttl now1 now2) (cm_cache cm') \<rparr>))"

text \<open>
  A sequence of \<^verbatim>\<open>set\<close> calls (key, value, ttl and the two clock readings of each); a call
  that raises leaves the cache as it was.
\<close>

fun cache_set_all ::
  "constants \<Rightarrow> 'v cache_manager \<Rightarrow> (string \<times> 'v \<times> int option \<times> int \<times> int) list \<Rightarrow> 'v cache_manager" where
  "cache_set_all c cm [] = cm"
| "cache_set_all c cm ((key, val, ttl, now1, now2) # calls) =
     cache_set_all c (case cache_set c cm key val ttl now1 now2 of Inl e \<Rightarrow> cm | Inr cm' \<Rightarrow> cm') calls"

section \<open>utils.py: retry and measure_time\<close>

text \<open>
  Effects are threaded through a world: the log of \<^verbatim>\<open>time.sleep\<close> durations and the state
  the wrapped operation works on. Durations are exact reals. \<^verbatim>\<open>time.sleep\<close> raises
  ValueError on a negative duration.
\<close>

record 's world =
  w_sleeps :: "real list"
  w_state :: 's

type_synonym ('s, 'a) operation = "'s world \<Rightarrow> (py_exception + 'a) \<times> 's world"

definition time_sleep :: "real \<Rightarrow> 's world \<Rightarrow> (py_exception + unit) \<times> 's world" where
  "time_sleep secs w =
     (if secs < 0 then (Inl (PyExc ValueError ''sleep length must be non-negative''), w)
      else (Inr (), w\<lparr> w_sleeps := w_sleeps w @ [secs] \<rparr>))"

text \<open>
  The wrapper's loop \<^verbatim>\<open>for attempt in range(max_attempts)\<close> over the attempts still to
  run. Falling out of the loop returns None.
\<close>

fun retry_loop ::
  "int \<Rightarrow> real \<Rightarrow> ('s, 'a) operation \<Rightarrow> nat list \<Rightarrow> 's world \<Rightarrow> (py_exception + 'a option) \<times> 's world" where
  "retry_loop max_attempts delay func [] w = (Inr None, w)"
| "retry_loop max_attempts delay func (attempt # rest) w =
     (case func w of
        (Inr v, w') \<Rightarrow> (Inr (Some v), w')
      | (Inl e, w') \<Rightarrow>
          if int attempt = max_attempts - 1 then (Inl e, w')
          else (case time_sleep (delay * 2 ^ attempt) w' of
                  (Inl e', w'') \<Rightarrow> (Inl e', w'')
                | (Inr u, w'') \<Rightarrow> retry_loop max_attempts delay func rest w''))"

definition retry ::
  "int \<Rightarrow> real \<Rightarrow> ('s, 'a) operation \<Rightarrow> 's world \<Rightarrow> (py_exception + 'a option) \<times> 's world" where
  "retry max_attempts delay func w = retry_loop max_attempts delay func [0..<nat max_attempts] w"

text \<open>\<^verbatim>\<open>measure_time\<close> reads the clock, logs the duration and hands the result (or the
  exception) through.\<close>

definition measure_time :: "('s, 'a) operation \<Rightarrow> ('s, 'a) operation" where
  "measure_time func = func"

text \<open>
  The specification's reading of the wrapper, for comparison: the world in which attempt
  \<open>k\<close> (counted from 0) starts when all earlier attempts failed, each failure followed by
  a wait of \<open>delay * 2 ^ i\<close> after attempt \<open>i\<close>; and the outcome of that attempt.
\<close>

fun world_before_attempt :: "real \<Rightarrow> ('s, 'a) operation \<Rightarrow> nat \<Rightarrow> 's world \<Rightarrow> 's world" where
  "world_before_attempt delay func 0 w = w"
| "world_before_attempt delay func (Suc k) w =
     (let w' = snd (func (world_before_attempt delay func k w))
      in w'\<lparr> w_sleeps := w_sleeps w' @ [delay * 2 ^ k] \<rparr>)"

definition attempt_outcome ::
  "real \<Rightarrow> ('s, 'a) operation \<Rightarrow> nat \<Rightarrow> 's world \<Rightarrow> (py_exception + 'a) \<times> 's world" where
  "attempt_outcome delay func k w = func (world_before_attempt delay func k w)"

text \<open>An operation driven by a script of outcomes held in the state, one per call.\<close>

definition scripted :: "((py_exception + 'a) list, 'a) operation" where
  "scripted w =
     (case w_state w of
        [] \<Rightarrow> (Inl (PyExc OtherException ''script exhausted''), w)
      | r # rs \<Rightarrow> (r, w\<lparr> w_state := rs \<rparr>))"

section \<open>The environment\<close>

text \<open>
  What the core does not own is gathered in one record: whether the API key is set (without
  it \<^verbatim>\<open>get_api_client()\<close> raises APIError), the text-completion service as a function of
  the number of requests the decision engine has made so far and of the prompt,
  \<^verbatim>\<open>json.loads\<close> (\<open>None\<close> for JSONDecodeError), the rendering \<^verbatim>\<open>str\<close> of numbers, lists
  and dicts, the clock, and the handlers' collaborators (coder, researcher, reflector),
  each giving a value or raising. The collaborators' own counters, caches and waits, the
  executor's dry run (it counts the call and returns), and the event bus's subscribers are
  not part of the model.
\<close>

record env =
  env_constants :: constants
  env_api_key :: bool
  env_create :: "nat \<Rightarrow> string \<Rightarrow> py_exception + string"
  env_json_loads :: "string \<Rightarrow> json option"
  env_repr :: "json \<Rightarrow> string"
  env_clock :: "nat \<Rightarrow> string"
  env_stamp :: "nat \<Rightarrow> string"
  env_generate :: "json \<Rightarrow> py_exception + string"
  env_refactor :: "json \<Rightarrow> py_exception + string"
  env_search :: "json \<Rightarrow> py_exception + json"
  env_analyze :: "memory_event list \<Rightarrow> py_exception + string"

section \<open>api\_client.py and agent.py: the decision engine\<close>

text \<open>
  The state the decision engine touches: the number of completion requests it has made
  and the metrics it records (two counters and the list of recorded confidences).
\<close>

record process =
  p_calls :: nat
  p_parse_failed :: nat
  p_failed :: nat
  p_confidences :: "json list"

definition upd_state :: "('s \<Rightarrow> 's) \<Rightarrow> 's world \<Rightarrow> 's world" where
  "upd_state f w = w\<lparr> w_state := f (w_state w) \<rparr>"

definition nl :: string where
  "nl = [CHR 0x0A]"

text \<open>
  \<^verbatim>\<open>APIClient.create_completion\<close> before its decorator: one request; any exception of the
  service is re-raised as APIError with the message \<^verbatim>\<open>f"API request failed: {e}"\<close>.
\<close>

definition completion_request :: "env \<Rightarrow> string \<Rightarrow> ('a process_scheme, string) operation" where
  "completion_request env prompt w =
     (let k = p_calls (w_state w);
          w' = upd_state (\<lambda>s. s\<lparr> p_calls := k + 1 \<rparr>) w
      in case env_create env k prompt of
           Inl e \<Rightarrow> (Inl (PyExc APIError (''API request failed: '' @ exc_str e)), w')
         | Inr content \<Rightarrow> (Inr content, w'))"

text \<open>\<^verbatim>\<open>@retry(max_attempts=3, delay=1.0) def create_completion\<close>\<close>

definition create_completion ::
  "env \<Rightarrow> string \<Rightarrow> 'a process_scheme world \<Rightarrow> (py_exception + string option) \<times> 'a process_scheme world" where
  "create_completion env prompt = retry 3 1 (completion_request env prompt)"

text \<open>The user message \<^verbatim>\<open>decide_action\<close> builds; \<open>meta_dump\<close> is
  \<^verbatim>\<open>json.dumps(metadata or {}, indent=2)\<close>.\<close>

definition enhanced_context ::
  "env \<Rightarrow> string \<Rightarrow> string list \<Rightarrow> json list \<Rightarrow> string \<Rightarrow> string" where
  "enhanced_context env context memory goals meta_dump =
     (let memory_context =
            (if memory = [] then ''No prior context'' else join nl (py_slice_from memory (- 10)));
          goals_context =
            (if goals = [] then ''No goals''
             else join nl (map (\<lambda>g. ''- '' @ py_str (env_repr env) g) (py_slice_to goals 5)));
          meta_str = py_slice_to meta_dump 500
      in nl @ ''Context: '' @ context @ nl @ nl @ ''Recent Memory (last 10):'' @ nl
         @ truncate_text memory_context 500 @ nl @ nl @ ''Current Goals (top 5):'' @ nl
         @ truncate_text goals_context 300 @ nl @ nl @ ''Metadata:'' @ nl @ meta_str @ nl)"

text \<open>The dict both \<^verbatim>\<open>except\<close> branches return, with their different analysis texts.\<close>

definition error_decision :: "string \<Rightarrow> json" where
  "error_decision analysis =
     JObj [(''analysis'', JStr analysis), (''action_type'', JStr ''error''),
           (''actions'', JArr []), (''goals_update'', JArr []), (''confidence'', JNum 0)]"

text \<open>The four \<^verbatim>\<open>setdefault\<close> calls under \<^verbatim>\<open># Validate result\<close>.\<close>

definition validate_result :: "(string \<times> json) list \<Rightarrow> (string \<times> json) list" where
  "validate_result result =
     setdefault ''goals_update'' (JArr [])
       (setdefault ''actions'' (JArr [])
          (setdefault ''action_type'' (JStr ''unknown'')
             (setdefault ''confidence'' (JNum (1 / 2)) result)))"

text \<open>
  The part of the \<^verbatim>\<open>try\<close> block of \<^verbatim>\<open>decide_action\<close> that follows the completion:
  \<^verbatim>\<open>json.loads\<close>, the validation, the metrics. A JSONDecodeError gives the parse-error dict;
  a parsed value that is not a dict has no \<^verbatim>\<open>setdefault\<close>, and that AttributeError (its
  message, which names the type, is shortened here) gives the error dict with \<^verbatim>\<open>str(e)\<close>.
\<close>

definition decide_from_content :: "env \<Rightarrow> string \<Rightarrow> 'a process_scheme world \<Rightarrow> json \<times> 'a process_scheme world" where
  "decide_from_content env content w =
     (case env_json_loads env content of
        None \<Rightarrow>
          (error_decision ''Error parsing response'',
           upd_state (\<lambda>s. s\<lparr> p_parse_failed := p_parse_failed s + 1 \<rparr>) w)
      | Some (JObj result) \<Rightarrow>
          (JObj (validate_result result),
           upd_state
             (\<lambda>s. s\<lparr> p_confidences := p_confidences s @
                       [dict_get_default (validate_result result) ''confidence'' (JNum 0)] \<rparr>) w)
      | Some other \<Rightarrow>
          (error_decision ''object has no attribute setdefault'',
           upd_state (\<lambda>s. s\<lparr> p_failed := p_failed s + 1 \<rparr>) w))"

text \<open>
  The body of \<^verbatim>\<open>decide_action\<close>. \<^verbatim>\<open>get_api_client()\<close> stands before the \<^verbatim>\<open>try\<close>, so its
  APIError leaves the body. Inside the \<^verbatim>\<open>try\<close>, the APIError that \<^verbatim>\<open>create_completion\<close>
  raises when its attempts are used up is caught by \<^verbatim>\<open>except Exception\<close> and gives the
  error dict with \<^verbatim>\<open>str(e)\<close>.
\<close>

definition decide_action_body ::
  "env \<Rightarrow> string \<Rightarrow> string list \<Rightarrow> json list \<Rightarrow> string \<Rightarrow> ('a process_scheme, json) operation" where
  "decide_action_body env context memory goals meta_dump w =
     (if \<not> env_api_key env
      then (Inl (PyExc APIError
                  ''OPENAI_API_KEY not found. Set it in .env file or environment variables.''), w)
      else
        case create_completion env (enhanced_context env context memory goals meta_dump) w of
          (Inl e, w') \<Rightarrow>
            (Inr (error_decision (exc_str e)),
             upd_state (\<lambda>s. s\<lparr> p_failed := p_failed s + 1 \<rparr>) w')
        | (Inr None, w') \<Rightarrow>
            (Inr (error_decision ''NoneType object has no attribute choices''),
             upd_state (\<lambda>s. s\<lparr> p_failed := p_failed s + 1 \<rparr>) w')
        | (Inr (Some content), w') \<Rightarrow>
            (case decide_from_content env content w' of (decision, w'') \<Rightarrow> (Inr decision, w'')))"

text \<open>\<^verbatim>\<open>@retry(max_attempts=3, delay=1.0) @measure_time def decide_action\<close>\<close>

definition decide_action ::
  "env \<Rightarrow> string \<Rightarrow> string list \<Rightarrow> json list \<Rightarrow> string
     \<Rightarrow> 'a process_scheme world \<Rightarrow> (py_exception + json option) \<times> 'a process_scheme world" where
  "decide_action env context memory goals meta_dump =
     retry 3 1 (measure_time (decide_action_body env context memory goals meta_dump))"

section \<open>event\_system.py\<close>

datatype event_type =
    CODE_GENERATED | CODE_REFACTORED | GOAL_COMPLETED | GOAL_FAILED | REFLECTION_DONE
  | RESEARCH_DONE | ERROR_OCCURRED | ITERATION_STARTED | ITERATION_COMPLETED

text \<open>An event is its type and its data dict. \<^verbatim>\<open>publish\<close> calls the subscribers, catching
  what they raise, and never raises itself; here it records the event.\<close>

type_synonym event = "event_type \<times> (string \<times> json) list"

section \<open>jarvis.py: the orchestration loop\<close>

record report =
  r_total_iterations :: int
  r_goals :: goal_stats
  r_memory_total_events :: nat

record jarvis = process +
  j_memory :: memory_manager
  j_goals :: goal_manager
  j_permissions :: permission_manager
  j_published :: "event list"
  j_iteration_count :: int
  j_ticks :: nat
  j_report :: "report option"

definition jarvis_init :: "memory_event list \<Rightarrow> goal list \<Rightarrow> jarvis world" where
  "jarvis_init loaded_memory loaded_goals =
     \<lparr> w_sleeps = [],
       w_state = \<lparr> p_calls = 0, p_parse_failed = 0, p_failed = 0, p_confidences = [],
                   j_memory = memory_init loaded_memory True,
                   j_goals = goals_init loaded_goals,
                   j_permissions = permissions_init,
                   j_published = [], j_iteration_count = 0, j_ticks = 0, j_report = None \<rparr> \<rparr>"

definition publish :: "event \<Rightarrow> jarvis world \<Rightarrow> jarvis world" where
  "publish ev = upd_state (\<lambda>s. s\<lparr> j_published := j_published s @ [ev] \<rparr>)"

text \<open>\<^verbatim>\<open>self.memory.add(event_type, content)\<close> with the clock read for the timestamp.\<close>

definition jarvis_memory_add :: "env \<Rightarrow> string \<Rightarrow> string \<Rightarrow> jarvis world \<Rightarrow> jarvis world" where
  "jarvis_memory_add env event_type content =
     upd_state (\<lambda>s. s\<lparr> j_memory := memory_add (j_memory s) event_type content None
                                       (env_clock env (j_ticks s)),
                        j_ticks := j_ticks s + 1 \<rparr>)"

text \<open>\<^verbatim>\<open>self.goals.add(goal)\<close> at the default priority.\<close>

definition jarvis_goal_add :: "env \<Rightarrow> json \<Rightarrow> jarvis world \<Rightarrow> (py_exception + string) \<times> jarvis world" where
  "jarvis_goal_add env goal_text w =
     (let s = w_state w;
          (r, gm) = goal_add (j_goals s) goal_text GOAL_PRIORITY_MEDIUM
                      (env_stamp env (j_ticks s)) (env_clock env (j_ticks s))
      in (r, upd_state (\<lambda>s. s\<lparr> j_goals := gm, j_ticks := j_ticks s + 1 \<rparr>) w))"

text \<open>
  The bodies of the handlers' loops. Each runs inside its own \<^verbatim>\<open>try\<close>: whatever the
  collaborator or the logging line raises is logged and the loop goes on, keeping the state
  changes made before it.
\<close>

definition code_generation_action :: "env \<Rightarrow> json \<Rightarrow> jarvis world \<Rightarrow> jarvis world" where
  "code_generation_action env action w =
     (case env_generate env action of
        Inl e \<Rightarrow> w
      | Inr code \<Rightarrow>
          (let (safe, pm) = check_code_safety (env_constants env) (j_permissions (w_state w)) code;
               w' = upd_state (\<lambda>s. s\<lparr> j_permissions := pm \<rparr>) w
           in if safe then jarvis_memory_add env ''code_generated'' (py_str (env_repr env) action) w'
              else w'))"

definition code_refactor_action :: "env \<Rightarrow> json \<Rightarrow> jarvis world \<Rightarrow> jarvis world" where
  "code_refactor_action env action w =
     (case env_refactor env action of
        Inl e \<Rightarrow> w
      | Inr refactored \<Rightarrow> jarvis_memory_add env ''code_refactored'' (py_str (env_repr env) action) w)"

definition research_action :: "env \<Rightarrow> json \<Rightarrow> jarvis world \<Rightarrow> jarvis world" where
  "research_action env action w =
     (case env_search env action of
        Inl e \<Rightarrow> w
      | Inr findings \<Rightarrow> jarvis_memory_add env ''research'' (py_str (env_repr env) findings) w)"

definition goal_update_action :: "env \<Rightarrow> json \<Rightarrow> jarvis world \<Rightarrow> jarvis world" where
  "goal_update_action env goal_text w = snd (jarvis_goal_add env goal_text w)"

text \<open>
  \<^verbatim>\<open>for x in decision.get(key, []): try: ... except Exception: ...\<close>. Only the start of the
  iteration is outside the \<^verbatim>\<open>try\<close>: a value that cannot be iterated raises TypeError.
\<close>

definition for_each_guarded ::
  "(json \<Rightarrow> jarvis world \<Rightarrow> jarvis world) \<Rightarrow> json \<Rightarrow> jarvis world \<Rightarrow> (py_exception + unit) \<times> jarvis world" where
  "for_each_guarded step v w =
     (case py_iter v of
        Inl e \<Rightarrow> (Inl e, w)
      | Inr xs \<Rightarrow> (Inr (), fold step xs w))"

definition handle_code_generation :: "env \<Rightarrow> (string \<times> json) list \<Rightarrow> jarvis world \<Rightarrow> (py_exception + unit) \<times> jarvis world" where
  "handle_code_generation env decision =
     for_each_guarded (code_generation_action env) (dict_get_default decision ''actions'' (JArr []))"

definition handle_code_refactor :: "env \<Rightarrow> (string \<times> json) list \<Rightarrow> jarvis world \<Rightarrow> (py_exception + unit) \<times> jarvis world" where
  "handle_code_refactor env decision =
     for_each_guarded (code_refactor_action env) (dict_get_default decision ''actions'' (JArr []))"

definition handle_research :: "env \<Rightarrow> (string \<times> json) list \<Rightarrow> jarvis world \<Rightarrow> (py_exception + unit) \<times> jarvis world" where
  "handle_research env decision =
     for_each_guarded (research_action env) (dict_get_default decision ''actions'' (JArr []))"

definition handle_reflection :: "env \<Rightarrow> (string \<times> json) list \<Rightarrow> jarvis world \<Rightarrow> (py_exception + unit) \<times> jarvis world" where
  "handle_reflection env decision w =
     (case env_analyze env (mm_memory (j_memory (w_state w))) of
        Inl e \<Rightarrow> (Inr (), w)
      | Inr insights \<Rightarrow> (Inr (), jarvis_memory_add env ''reflection'' insights w))"

definition handle_goal_update :: "env \<Rightarrow> (string \<times> json) list \<Rightarrow> jarvis world \<Rightarrow> (py_exception + unit) \<times> jarvis world" where
  "handle_goal_update env decision =
     for_each_guarded (goal_update_action env) (dict_get_default decision ''goals_update'' (JArr []))"

text \<open>The \<^verbatim>\<open>if/elif\<close> chain on \<^verbatim>\<open>action_type\<close>; no branch for any other value.\<close>

definition dispatch :: "env \<Rightarrow> (string \<times> json) list \<Rightarrow> jarvis world \<Rightarrow> (py_exception + unit) \<times> jarvis world" where
  "dispatch env decision w =
     (let action_type = dict_get decision ''action_type''
      in if action_type = JStr ''code_generation'' then handle_code_generation env decision w
         else if action_type = JStr ''code_refactor'' then handle_code_refactor env decision w
         else if action_type = JStr ''research'' then handle_research env decision w
         else if action_type = JStr ''reflection'' then handle_reflection env decision w
         else if action_type = JStr ''goal_update'' then handle_goal_update env decision w
         else (Inr (), w))"

text \<open>\<^verbatim>\<open>for new_goal in decision.get("goals_update", []): self.goals.add(new_goal)\<close>, with no
  \<^verbatim>\<open>try\<close> around the call.\<close>

fun add_goals :: "env \<Rightarrow> json list \<Rightarrow> jarvis world \<Rightarrow> (py_exception + unit) \<times> jarvis world" where
  "add_goals env [] w = (Inr (), w)"
| "add_goals env (g # gs) w =
     (case jarvis_goal_add env g w of
        (Inl e, w') \<Rightarrow> (Inl e, w')
      | (Inr goal_id, w') \<Rightarrow> add_goals env gs w')"

definition update_goals :: "env \<Rightarrow> (string \<times> json) list \<Rightarrow> jarvis world \<Rightarrow> (py_exception + unit) \<times> jarvis world" where
  "update_goals env decision w =
     (case py_iter (dict_get_default decision ''goals_update'' (JArr [])) of
        Inl e \<Rightarrow> (Inl e, w)
      | Inr gs \<Rightarrow> add_goals env gs w)"

text \<open>\<^verbatim>\<open>_build_context\<close>, and \<^verbatim>\<open>json.dumps\<close> of the metadata dict of \<^verbatim>\<open>_execute_iteration\<close>.\<close>

definition str_int :: "int \<Rightarrow> string" where
  "str_int i = (if i < 0 then ''-'' @ str_nat (nat (- i)) else str_nat (nat i))"

definition build_context :: "env \<Rightarrow> jarvis world \<Rightarrow> string \<times> jarvis world" where
  "build_context env w =
     (let s = w_state w
      in (nl @ ''Iteration: '' @ str_int (j_iteration_count s) @ nl
          @ ''Active Goals: '' @ str_nat (length (get_active (j_goals s))) @ nl
          @ ''Timestamp: '' @ env_clock env (j_ticks s) @ nl,
          upd_state (\<lambda>s. s\<lparr> j_ticks := j_ticks s + 1 \<rparr>) w))"

definition metadata_dump :: "bool \<Rightarrow> int \<Rightarrow> string" where
  "metadata_dump auto_mode iteration =
     ''{'' @ nl @ ''  '' @ [CHR 0x22] @ ''auto_mode'' @ [CHR 0x22] @ '': ''
       @ (if auto_mode then ''true'' else ''false'') @ '','' @ nl
       @ ''  '' @ [CHR 0x22] @ ''iteration'' @ [CHR 0x22] @ '': '' @ str_int iteration @ nl @ ''}''"

text \<open>
  \<^verbatim>\<open>_execute_iteration\<close>: its own \<^verbatim>\<open>except\<close> logs and re-raises, so an exception of the
  decision engine, of the dispatch or of the goal update leaves it.
\<close>

definition execute_iteration :: "env \<Rightarrow> bool \<Rightarrow> jarvis world \<Rightarrow> (py_exception + unit) \<times> jarvis world" where
  "execute_iteration env auto_mode w =
     (let (context, w1) = build_context env w;
          (recent, mm) = get_recent (j_memory (w_state w1)) 10;
          w2 = upd_state (\<lambda>s. s\<lparr> j_memory := mm \<rparr>) w1;
          active = get_active (j_goals (w_state w2))
      in case decide_action env context recent active
                (metadata_dump auto_mode (j_iteration_count (w_state w2))) w2 of
           (Inl e, w3) \<Rightarrow> (Inl e, w3)
         | (Inr None, w3) \<Rightarrow> (Inl (PyExc AttributeError ''NoneType object has no attribute get''), w3)
         | (Inr (Some (JObj decision)), w3) \<Rightarrow>
             (let w4 = jarvis_memory_add env ''decision''
                         (py_str (env_repr env) (dict_get decision ''analysis'')) w3
              in case dispatch env decision w4 of
                   (Inl e, w5) \<Rightarrow> (Inl e, w5)
                 | (Inr u, w5) \<Rightarrow> update_goals env decision w5)
         | (Inr (Some other), w3) \<Rightarrow> (Inl (PyExc AttributeError ''object has no attribute get''), w3))"

text \<open>\<^verbatim>\<open>_generate_report\<close>: the snapshot; writing it to the file can only fail into the log.\<close>

definition generate_report :: "jarvis world \<Rightarrow> jarvis world" where
  "generate_report =
     upd_state (\<lambda>s. s\<lparr> j_report :=
        Some \<lparr> r_total_iterations = j_iteration_count s,
               r_goals = goal_get_stats (j_goals s),
               r_memory_total_events = memory_total_events (j_memory s) \<rparr> \<rparr>)"

text \<open>
  The \<^verbatim>\<open>for i in range(iterations)\<close> loop of \<^verbatim>\<open>run\<close> over the indices still to run, with
  its \<^verbatim>\<open>try\<close>/\<^verbatim>\<open>except Exception\<close> around the whole body.
\<close>

definition iteration_failed :: "env \<Rightarrow> py_exception \<Rightarrow> jarvis world \<Rightarrow> jarvis world" where
  "iteration_failed env e w =
     publish (ERROR_OCCURRED, [(''error'', JStr (exc_str e))])
       (jarvis_memory_add env ''error'' (''Iteration failed: '' @ exc_str e) w)"

definition run_iteration :: "env \<Rightarrow> bool \<Rightarrow> nat \<Rightarrow> jarvis world \<Rightarrow> jarvis world" where
  "run_iteration env auto_mode i w =
     (case execute_iteration env auto_mode
             (upd_state (\<lambda>s. s\<lparr> j_iteration_count := int i + 1 \<rparr>) w) of
        (Inr u, w') \<Rightarrow> w'
      | (Inl e, w') \<Rightarrow> iteration_failed env e w')"

fun run_loop :: "env \<Rightarrow> bool \<Rightarrow> nat list \<Rightarrow> jarvis world \<Rightarrow> jarvis world" where
  "run_loop env auto_mode [] w = w"
| "run_loop env auto_mode (i # rest) w = run_loop env auto_mode rest (run_iteration env auto_mode i w)"

definition run :: "env \<Rightarrow> int \<Rightarrow> bool \<Rightarrow> jarvis world \<Rightarrow> jarvis world" where
  "run env iterations auto_mode w =
     publish (ITERATION_COMPLETED, [])
       (generate_report
          (run_loop env auto_mode [0..<nat iterations] (publish (ITERATION_STARTED, []) w)))"



section \<open>Notions used in the statements\<close>

text \<open>The world after \<open>n\<close> more completion requests and the given waits.\<close>

definition after_requests :: "nat \<Rightarrow> real list \<Rightarrow> 'a process_scheme world \<Rightarrow> 'a process_scheme world" where
  "after_requests n waits w =
     w\<lparr> w_sleeps := w_sleeps w @ waits,
        w_state := (w_state w)\<lparr> p_calls := p_calls (w_state w) + n \<rparr> \<rparr>"

text \<open>The waits of \<^verbatim>\<open>retry(max_attempts=3, delay=1.0)\<close> after \<open>j\<close> failed attempts.\<close>

definition backoff_waits :: "nat \<Rightarrow> real list" where
  "backoff_waits j = map (\<lambda>i. 1 * 2 ^ i) [0..<j]"





section \<open>Concrete inputs\<close>

text \<open>The inputs at which the results below are evaluated.\<close>

definition rm_rf_example :: string where
  "rm_rf_example = ''os.system('' @ [CHR 0x27] @ ''rm -rf /'' @ [CHR 0x27] @ '')''"

definition print_example :: string where
  "print_example = ''print('' @ [CHR 0x27] @ ''hello'' @ [CHR 0x27] @ '')''"

definition one_failed_goal :: goal_manager where
  "one_failed_goal =
     fail (snd (goal_add (goals_init []) (JStr ''Test goal'') GOAL_PRIORITY_MEDIUM
                  ''1700000000.5'' ''2024-01-01T00:00:00''))
          ''goal_0_1700000000.5''"

definition two_entries :: "string cache_manager" where
  "two_entries =
     cache_set_all source_constants (cache_init 2 3600)
       [(''a'', ''va'', None, 100, 101), (''b'', ''vb'', Some 60, 200, 201)]"

definition fails_twice :: "(py_exception + string) list world" where
  "fails_twice =
     \<lparr> w_sleeps = [],
       w_state = [Inl (PyExc OtherException ''first''), Inl (PyExc OtherException ''second''),
                  Inr ''ok''] \<rparr>"

text \<open>A fresh process, and environments whose collaborators are not used: the oracle and
  \<^verbatim>\<open>json.loads\<close> are the arguments.\<close>

definition process_init :: "process world" where
  "process_init =
     \<lparr> w_sleeps = [], w_state = \<lparr> p_calls = 0, p_parse_failed = 0, p_failed = 0, p_confidences = [] \<rparr> \<rparr>"

definition example_env ::
  "(nat \<Rightarrow> string \<Rightarrow> py_exception + string) \<Rightarrow> (string \<Rightarrow> json option) \<Rightarrow> env" where
  "example_env create loads =
     \<lparr> env_constants = source_constants, env_api_key = True,
       env_create = create, env_json_loads = loads,
       env_repr = (\<lambda>v. ''<value>''),
       env_clock = (\<lambda>n. ''2024-01-01T00:00:'' @ str_nat n),
       env_stamp = (\<lambda>n. ''1704067200.'' @ str_nat n),
       env_generate = (\<lambda>a. Inl (PyExc OtherException ''no coder'')),
       env_refactor = (\<lambda>a. Inl (PyExc OtherException ''no coder'')),
       env_search = (\<lambda>a. Inl (PyExc OtherException ''no researcher'')),
       env_analyze = (\<lambda>m. Inr ''insights'') \<rparr>"

text \<open>An oracle that fails on the first request only, and one that always fails.\<close>

definition flaky_oracle :: "nat \<Rightarrow> string \<Rightarrow> py_exception + string" where
  "flaky_oracle k prompt = (if k = 0 then Inl (PyExc OtherException ''timeout'') else Inr ''{reflect}'')"

definition dead_oracle :: "nat \<Rightarrow> string \<Rightarrow> py_exception + string" where
  "dead_oracle k prompt = Inl (PyExc OtherException ''timeout'')"

definition reflect_loads :: "string \<Rightarrow> json option" where
  "reflect_loads s = Some (JObj [(''action_type'', JStr ''reflection'')])"



definition prose_env :: env where
  "prose_env = example_env (\<lambda>k prompt. Inr ''I think we should refactor.'') (\<lambda>s. None)"

text \<open>A run whose second decision asks for research with \<^verbatim>\<open>"actions": null\<close>.\<close>

definition second_fails_oracle :: "nat \<Rightarrow> string \<Rightarrow> py_exception + string" where
  "second_fails_oracle k prompt = Inr (if k = 1 then ''{research}'' else ''{reflect}'')"

definition second_fails_loads :: "string \<Rightarrow> json option" where
  "second_fails_loads s =
     (if s = ''{research}''
      then Some (JObj [(''analysis'', JStr ''look it up''), (''action_type'', JStr ''research''),
                       (''actions'', JNull)])
      else Some (JObj [(''analysis'', JStr ''think''), (''action_type'', JStr ''reflection'')]))"

definition second_fails_env :: env where
  "second_fails_env = example_env second_fails_oracle second_fails_loads"

section \<open>Results about the memory log\<close>

lemma py_slice_from_neg_positive:
  "0 < count \<Longrightarrow> py_slice_from xs (- count) = drop (length xs - nat count) xs"
  by (simp add: py_slice_from_def nat_diff_distrib')

lemma get_recent_positive:
  "0 < count \<Longrightarrow>
     fst (get_recent mm count) = map ev_content (drop (length (mm_memory mm) - nat count) (mm_memory mm))
     \<and> length (fst (get_recent mm count)) = min (nat count) (length (mm_memory mm))"
  by (auto simp add: get_recent_def py_slice_from_neg_positive)

text \<open>
  C8. \<^verbatim>\<open>get_recent(n)\<close> is claimed to return min(n, total) entries, so none for n = 0.
  The slice \<^verbatim>\<open>self.memory[-count:]\<close> is \<^verbatim>\<open>self.memory[0:]\<close> when count is 0: on a log
  of two events \<^verbatim>\<open>get_recent(0)\<close> returns both contents.
\<close>

theorem get_recent_zero_returns_everything:
  "fst (get_recent
          (memory_add (memory_add (memory_init [] True) ''test'' ''content_0'' None ''t0'')
             ''test'' ''content_1'' None ''t1'') 0)
   = [''content_0'', ''content_1'']"
  by (simp add: get_recent_def memory_add_def memory_init_def py_slice_from_def truncate_text_def)

section \<open>Results about the permission filter\<close>

lemma rm_rf_matches_two_patterns:
  "map (\<lambda>p. re_search (snd p) rm_rf_example) DANGEROUS_PATTERNS
     = [False, False, False, False, True, False, False, True, False]"
  by code_simp

lemma rm_rf_first_match:
  "check_code_safety source_constants permissions_init rm_rf_example =
     (False, \<lparr> pm_blocked_count = 1, pm_allowed_count = 0,
               pm_warnings = [''Dangerous pattern detected: os'' @ [CHR 0x5C] @ ''.system''] \<rparr>)"
  by code_simp

lemma print_allowed:
  "check_code_safety source_constants permissions_init print_example =
     (True, \<lparr> pm_blocked_count = 0, pm_allowed_count = 1, pm_warnings = [] \<rparr>)"
  by code_simp

text \<open>
  C3. With safety mode on, a text that some dangerous pattern matches is answered at the
  first pattern of the list that matches it: one warning naming that pattern, the blocked
  counter one higher, the allowed counter untouched, and the result the negation of the
  block-dangerous flag. A text no pattern matches raises the allowed counter by one and is
  answered true. With safety mode off the answer is true and the manager is unchanged.
\<close>

theorem check_code_safety_cases:
  "(SAFETY_MODE c \<and> (\<exists>p \<in> set DANGEROUS_PATTERNS. re_search (snd p) code) \<longrightarrow>
      (\<exists>i < length DANGEROUS_PATTERNS.
          re_search (snd (DANGEROUS_PATTERNS ! i)) code \<and>
          (\<forall>j < i. \<not> re_search (snd (DANGEROUS_PATTERNS ! j)) code) \<and>
          check_code_safety c pm code =
            (\<not> BLOCK_DANGEROUS_CODE c,
             pm\<lparr> pm_warnings := pm_warnings pm @
                      [''Dangerous pattern detected: '' @ fst (DANGEROUS_PATTERNS ! i)],
                 pm_blocked_count := pm_blocked_count pm + 1 \<rparr>)))
   \<and> (SAFETY_MODE c \<and> (\<forall>p \<in> set DANGEROUS_PATTERNS. \<not> re_search (snd p) code) \<longrightarrow>
        check_code_safety c pm code = (True, pm\<lparr> pm_allowed_count := pm_allowed_count pm + 1 \<rparr>))
   \<and> (\<not> SAFETY_MODE c \<longrightarrow> check_code_safety c pm code = (True, pm))"
proof (intro conjI impI)
  assume a: "SAFETY_MODE c \<and> (\<exists>p \<in> set DANGEROUS_PATTERNS. re_search (snd p) code)"
  then obtain p where p: "find (\<lambda>p. re_search (snd p) code) DANGEROUS_PATTERNS = Some p"
    by (cases "find (\<lambda>p. re_search (snd p) code) DANGEROUS_PATTERNS") (auto simp: find_None_iff)
  then obtain i where i: "i < length DANGEROUS_PATTERNS"
      "re_search (snd (DANGEROUS_PATTERNS ! i)) code"
      "p = DANGEROUS_PATTERNS ! i" "\<forall>j < i. \<not> re_search (snd (DANGEROUS_PATTERNS ! j)) code"
    by (auto simp: find_Some_iff)
  have "check_code_safety c pm code =
            (\<not> BLOCK_DANGEROUS_CODE c,
             pm\<lparr> pm_warnings := pm_warnings pm @
                      [''Dangerous pattern detected: '' @ fst (DANGEROUS_PATTERNS ! i)],
                 pm_blocked_count := pm_blocked_count pm + 1 \<rparr>)"
    using a p i(3) by (simp add: check_code_safety_def)
  with i show "\<exists>i < length DANGEROUS_PATTERNS.
          re_search (snd (DANGEROUS_PATTERNS ! i)) code \<and>
          (\<forall>j < i. \<not> re_search (snd (DANGEROUS_PATTERNS ! j)) code) \<and>
          check_code_safety c pm code =
            (\<not> BLOCK_DANGEROUS_CODE c,
             pm\<lparr> pm_warnings := pm_warnings pm @
                      [''Dangerous pattern detected: '' @ fst (DANGEROUS_PATTERNS ! i)],
                 pm_blocked_count := pm_blocked_count pm + 1 \<rparr>)"
    by blast
next
  assume a: "SAFETY_MODE c \<and> (\<forall>p \<in> set DANGEROUS_PATTERNS. \<not> re_search (snd p) code)"
  then have "find (\<lambda>p. re_search (snd p) code) DANGEROUS_PATTERNS = None"
    by (auto simp add: find_None_iff)
  with a show "check_code_safety c pm code = (True, pm\<lparr> pm_allowed_count := pm_allowed_count pm + 1 \<rparr>)"
    by (simp add: check_code_safety_def)
next
  assume "\<not> SAFETY_MODE c"
  then show "check_code_safety c pm code = (True, pm)"
    by (simp add: check_code_safety_def)
qed

theorem check_code_safety_cases_witness:
  "(SAFETY_MODE source_constants \<and> (\<exists>p \<in> set DANGEROUS_PATTERNS. re_search (snd p) rm_rf_example))
   \<and> fst (check_code_safety source_constants permissions_init rm_rf_example) = False
   \<and> pm_blocked_count (snd (check_code_safety source_constants permissions_init rm_rf_example)) = 1
   \<and> pm_allowed_count (snd (check_code_safety source_constants permissions_init rm_rf_example)) = 0
   \<and> \<not> (\<exists>p \<in> set DANGEROUS_PATTERNS. re_search (snd p) print_example)
   \<and> check_code_safety source_constants permissions_init print_example
       = (True, permissions_init\<lparr> pm_allowed_count := 1 \<rparr>)
   \<and> \<not> SAFETY_MODE (source_constants\<lparr> SAFETY_MODE := False \<rparr>)
   \<and> check_code_safety (source_constants\<lparr> SAFETY_MODE := False \<rparr>) permissions_init rm_rf_example
       = (True, permissions_init)"
proof -
  have h1: "SAFETY_MODE source_constants \<and> (\<exists>p \<in> set DANGEROUS_PATTERNS. re_search (snd p) rm_rf_example)"
    by code_simp
  have h2: "SAFETY_MODE source_constants \<and> (\<forall>p \<in> set DANGEROUS_PATTERNS. \<not> re_search (snd p) print_example)"
    by code_simp
  have h3: "\<not> SAFETY_MODE (source_constants\<lparr> SAFETY_MODE := False \<rparr>)"
    by simp
  have b: "BLOCK_DANGEROUS_CODE source_constants" "pm_blocked_count permissions_init = 0"
    "pm_allowed_count permissions_init = 0"
    by (simp_all add: source_constants_def permissions_init_def)
  from check_code_safety_cases [of source_constants rm_rf_example permissions_init] h1
  obtain i where "check_code_safety source_constants permissions_init rm_rf_example =
            (\<not> BLOCK_DANGEROUS_CODE source_constants,
             permissions_init\<lparr> pm_warnings := pm_warnings permissions_init @
                      [''Dangerous pattern detected: '' @ fst (DANGEROUS_PATTERNS ! i)],
                 pm_blocked_count := pm_blocked_count permissions_init + 1 \<rparr>)"
    by blast
  then have c1: "fst (check_code_safety source_constants permissions_init rm_rf_example) = False"
    "pm_blocked_count (snd (check_code_safety source_constants permissions_init rm_rf_example)) = 1"
    "pm_allowed_count (snd (check_code_safety source_constants permissions_init rm_rf_example)) = 0"
    using b by simp_all
  from check_code_safety_cases [of source_constants print_example permissions_init] h2
  have c2: "check_code_safety source_constants permissions_init print_example
       = (True, permissions_init\<lparr> pm_allowed_count := 1 \<rparr>)"
    using b by simp
  from check_code_safety_cases [of "source_constants\<lparr> SAFETY_MODE := False \<rparr>" rm_rf_example permissions_init] h3
  have c3: "check_code_safety (source_constants\<lparr> SAFETY_MODE := False \<rparr>) permissions_init rm_rf_example
       = (True, permissions_init)"
    by blast
  from h1 c1 h2 c2 h3 c3 show ?thesis by blast
qed

section \<open>Results about the cache\<close>











lemma set_third_key_value:
  "cache_set source_constants two_entries ''c'' ''vc'' None 300 301 =
     Inr \<lparr> cm_cache = [(''b'', \<lparr> ce_value = ''vb'', ce_created_at = 200, ce_expires_at = 60000201, ce_hits = 0 \<rparr>),
                       (''c'', \<lparr> ce_value = ''vc'', ce_created_at = 300, ce_expires_at = 3600000301, ce_hits = 0 \<rparr>)],
           cm_max_size = 2, cm_ttl_seconds = 3600 \<rparr>"
  by code_simp

lemma overwrite_second_key_value:
  "cache_set source_constants two_entries ''b'' ''vb2'' None 300 301 =
     Inr \<lparr> cm_cache = [(''b'', \<lparr> ce_value = ''vb2'', ce_created_at = 300, ce_expires_at = 3600000301, ce_hits = 0 \<rparr>)],
           cm_max_size = 2, cm_ttl_seconds = 3600 \<rparr>"
  by code_simp





section \<open>Results about the retry wrapper\<close>

lemma time_sleep_nonneg:
  "0 \<le> secs \<Longrightarrow> time_sleep secs w = (Inr (), w\<lparr> w_sleeps := w_sleeps w @ [secs] \<rparr>)"
  by (simp add: time_sleep_def)

lemma retry_loop_failed_attempt:
  assumes "0 \<le> delay" "k < m" "int k \<noteq> int m - 1" "fst (attempt_outcome delay func k w) = Inl e"
  shows "retry_loop (int m) delay func [k..<m] (world_before_attempt delay func k w)
           = retry_loop (int m) delay func [Suc k..<m] (world_before_attempt delay func (Suc k) w)"
proof -
  obtain w' where f: "func (world_before_attempt delay func k w) = (Inl e, w')"
    using assms(4) by (cases "func (world_before_attempt delay func k w)") (simp add: attempt_outcome_def)
  have "0 \<le> delay * 2 ^ k" using assms(1) by simp
  then have s: "time_sleep (delay * 2 ^ k) w' = (Inr (), w'\<lparr> w_sleeps := w_sleeps w' @ [delay * 2 ^ k] \<rparr>)"
    by (rule time_sleep_nonneg)
  have u: "[k..<m] = k # [Suc k..<m]" using assms(2) by (simp add: upt_conv_Cons)
  show ?thesis using assms(3) by (simp add: u f s)
qed

lemma retry_loop_success:
  assumes "0 \<le> delay" "j < m"
    and "\<forall>i < j. isl (fst (attempt_outcome delay func i w))"
    and "fst (attempt_outcome delay func j w) = Inr v"
  shows "k \<le> j \<Longrightarrow> retry_loop (int m) delay func [k..<m] (world_before_attempt delay func k w)
           = (Inr (Some v), snd (attempt_outcome delay func j w))"
proof (induction "j - k" arbitrary: k)
  case 0
  then have kj: "k = j" by simp
  have u: "[j..<m] = j # [Suc j..<m]" using assms(2) by (simp add: upt_conv_Cons)
  obtain w' where "func (world_before_attempt delay func j w) = (Inr v, w')"
    using assms(4) by (cases "func (world_before_attempt delay func j w)") (simp add: attempt_outcome_def)
  then show ?case by (simp add: kj u attempt_outcome_def)
next
  case (Suc n)
  then have lt: "k < j" by simp
  with assms(3) have "isl (fst (attempt_outcome delay func k w))" by simp
  then obtain e where e: "fst (attempt_outcome delay func k w) = Inl e"
    by (cases "fst (attempt_outcome delay func k w)") auto
  have km: "k < m" "int k \<noteq> int m - 1" using lt assms(2) by auto
  have "n = j - Suc k" "Suc k \<le> j" using Suc.hyps(2) lt by auto
  from Suc.hyps(1) [OF this]
  have "retry_loop (int m) delay func [Suc k..<m] (world_before_attempt delay func (Suc k) w)
          = (Inr (Some v), snd (attempt_outcome delay func j w))" .
  then show ?case
    using retry_loop_failed_attempt [OF assms(1) km e] by simp
qed

lemma retry_loop_exhausted:
  assumes "0 \<le> delay" "0 < m"
    and "\<forall>i < m. isl (fst (attempt_outcome delay func i w))"
  shows "k < m \<Longrightarrow> retry_loop (int m) delay func [k..<m] (world_before_attempt delay func k w)
           = (Inl (projl (fst (attempt_outcome delay func (m - 1) w))),
              snd (attempt_outcome delay func (m - 1) w))"
proof (induction "m - 1 - k" arbitrary: k)
  case 0
  obtain n where n: "m = Suc n" using assms(2) by (cases m) auto
  with 0 have kn: "k = n" by simp
  from assms(3) n have "isl (fst (attempt_outcome delay func n w))" by simp
  then obtain e w' where f: "func (world_before_attempt delay func n w) = (Inl e, w')"
    by (cases "func (world_before_attempt delay func n w)") (auto simp add: attempt_outcome_def isl_def)
  show ?case by (simp add: kn n f attempt_outcome_def)
next
  case (Suc n)
  then have lt: "k < m - 1" by simp
  with assms(3) have "isl (fst (attempt_outcome delay func k w))" by simp
  then obtain e where e: "fst (attempt_outcome delay func k w) = Inl e"
    by (cases "fst (attempt_outcome delay func k w)") auto
  have km: "k < m" "int k \<noteq> int m - 1" using lt by auto
  have "n = m - 1 - Suc k" "Suc k < m" using Suc.hyps(2) lt by auto
  from Suc.hyps(1) [OF this]
  have "retry_loop (int m) delay func [Suc k..<m] (world_before_attempt delay func (Suc k) w)
          = (Inl (projl (fst (attempt_outcome delay func (m - 1) w))),
              snd (attempt_outcome delay func (m - 1) w))" .
  then show ?case
    using retry_loop_failed_attempt [OF assms(1) km e] by simp
qed

lemma sleeps_before_attempt:
  assumes "\<forall>u. w_sleeps (snd (func u)) = w_sleeps u"
  shows "w_sleeps (world_before_attempt delay func k w) = w_sleeps w @ map (\<lambda>i. delay * 2 ^ i) [0..<k]"
  by (induction k) (simp_all add: assms Let_def)

lemma retry_fails_twice_value:
  "retry 3 1 scripted fails_twice = (Inr (Some ''ok''), \<lparr> w_sleeps = [1, 2], w_state = [] \<rparr>)"
  by (simp add: retry_def fails_twice_def scripted_def time_sleep_def upt_rec)

lemma scripted_keeps_sleeps: "w_sleeps (snd (scripted u)) = w_sleeps u"
  by (simp add: scripted_def split: list.splits)

text \<open>
  C9. For a delay that is not negative: when the first \<open>j\<close> attempts fail and attempt
  \<open>j\<close> (counted from 0, \<open>j\<close> below \<^verbatim>\<open>max_attempts\<close>) succeeds, the wrapper returns that
  value in the world that attempt left, without a further wait; when all
  \<^verbatim>\<open>max_attempts\<close> attempts fail, it raises the exception of the last attempt. The world an
  attempt starts in is the one the specification describes: after failed attempt \<open>i\<close>
  a wait of \<open>delay * 2 ^ i\<close>. For an operation that does not sleep itself the waits are
  therefore \<open>delay * 2 ^ 0, ..., delay * 2 ^ (j - 1)\<close>, and none after the last attempt.
\<close>

theorem retry_backoff:
  "0 \<le> delay \<longrightarrow>
     (j < m \<and> (\<forall>i < j. isl (fst (attempt_outcome delay func i w)))
        \<and> fst (attempt_outcome delay func j w) = Inr v \<longrightarrow>
        retry (int m) delay func w = (Inr (Some v), snd (attempt_outcome delay func j w))
        \<and> ((\<forall>u. w_sleeps (snd (func u)) = w_sleeps u) \<longrightarrow>
             w_sleeps (snd (retry (int m) delay func w))
               = w_sleeps w @ map (\<lambda>i. delay * 2 ^ i) [0..<j]))
   \<and> (0 < m \<and> (\<forall>i < m. isl (fst (attempt_outcome delay func i w))) \<longrightarrow>
        retry (int m) delay func w
          = (Inl (projl (fst (attempt_outcome delay func (m - 1) w))),
             snd (attempt_outcome delay func (m - 1) w))
        \<and> ((\<forall>u. w_sleeps (snd (func u)) = w_sleeps u) \<longrightarrow>
             w_sleeps (snd (retry (int m) delay func w))
               = w_sleeps w @ map (\<lambda>i. delay * 2 ^ i) [0..<m - 1]))"
proof (intro impI conjI)
  assume d: "0 \<le> delay"
    and a: "j < m \<and> (\<forall>i < j. isl (fst (attempt_outcome delay func i w)))
        \<and> fst (attempt_outcome delay func j w) = Inr v"
  from retry_loop_success [OF d, of j m func w v 0] a
  show r: "retry (int m) delay func w = (Inr (Some v), snd (attempt_outcome delay func j w))"
    by (simp add: retry_def)
  assume p: "\<forall>u. w_sleeps (snd (func u)) = w_sleeps u"
  show "w_sleeps (snd (retry (int m) delay func w)) = w_sleeps w @ map (\<lambda>i. delay * 2 ^ i) [0..<j]"
    using p sleeps_before_attempt [OF p, of delay j w] by (simp add: r attempt_outcome_def)
next
  assume d: "0 \<le> delay"
    and a: "0 < m \<and> (\<forall>i < m. isl (fst (attempt_outcome delay func i w)))"
  from retry_loop_exhausted [OF d, of m func w 0] a
  show r: "retry (int m) delay func w
          = (Inl (projl (fst (attempt_outcome delay func (m - 1) w))),
             snd (attempt_outcome delay func (m - 1) w))"
    by (simp add: retry_def)
  assume p: "\<forall>u. w_sleeps (snd (func u)) = w_sleeps u"
  show "w_sleeps (snd (retry (int m) delay func w)) = w_sleeps w @ map (\<lambda>i. delay * 2 ^ i) [0..<m - 1]"
    using p sleeps_before_attempt [OF p, of delay "m - 1" w] by (simp add: r attempt_outcome_def)
qed

theorem retry_backoff_witness:
  "(0::real) \<le> 1 \<and> (2::nat) < 3
   \<and> isl (fst (attempt_outcome 1 scripted 0 fails_twice))
   \<and> isl (fst (attempt_outcome 1 scripted 1 fails_twice))
   \<and> fst (attempt_outcome 1 scripted 2 fails_twice) = Inr ''ok''
   \<and> (\<forall>u :: (py_exception + string) list world. w_sleeps (snd (scripted u)) = w_sleeps u)
   \<and> fst (retry 3 1 scripted fails_twice) = Inr (Some ''ok'')
   \<and> w_sleeps (snd (retry 3 1 scripted fails_twice)) = [1, 2]
   \<and> length (w_sleeps (snd (retry 3 1 scripted fails_twice))) = 2
   \<and> w_sleeps (snd (retry 3 1 scripted fails_twice)) ! 1 \<ge> 2 * (w_sleeps (snd (retry 3 1 scripted fails_twice)) ! 0)"
proof -
  have h1: "\<forall>i < 2. isl (fst (attempt_outcome 1 scripted i fails_twice))"
    by (simp add: less_Suc_eq numeral_2_eq_2 attempt_outcome_def scripted_def fails_twice_def)
  have h2: "fst (attempt_outcome 1 scripted 2 fails_twice) = Inr ''ok''"
    by (simp add: numeral_2_eq_2 attempt_outcome_def scripted_def fails_twice_def Let_def)
  have h3: "\<forall>u :: (py_exception + string) list world. w_sleeps (snd (scripted u)) = w_sleeps u"
    by (simp add: scripted_keeps_sleeps)
  have s: "w_sleeps fails_twice = []" by (simp add: fails_twice_def)
  have d: "(0::real) \<le> 1" by simp
  have pre: "(2::nat) < 3 \<and> (\<forall>i < 2. isl (fst (attempt_outcome 1 scripted i fails_twice)))
        \<and> fst (attempt_outcome 1 scripted 2 fails_twice) = Inr ''ok''"
    using h1 h2 by simp
  note t = retry_backoff [of 1 2 3 scripted fails_twice "''ok''", THEN mp, OF d, THEN conjunct1, THEN mp, OF pre]
  from t have r: "fst (retry 3 1 scripted fails_twice) = Inr (Some ''ok'')" by simp
  from t h3 have "w_sleeps (snd (retry (int 3) 1 scripted fails_twice))
               = w_sleeps fails_twice @ map (\<lambda>i. 1 * 2 ^ i) [0..<2]" by blast
  then have sl: "w_sleeps (snd (retry 3 1 scripted fails_twice)) = [1, 2]"
    by (simp add: s upt_rec)
  have h1a: "isl (fst (attempt_outcome 1 scripted 0 fails_twice))"
    and h1b: "isl (fst (attempt_outcome 1 scripted 1 fails_twice))"
    using h1 by simp_all
  from r sl h1a h1b h2 h3 show ?thesis by simp
qed

section \<open>Results about the goal store\<close>

lemma one_failed_goal_value:
  "one_failed_goal =
     \<lparr> gm_goals = [\<lparr> g_id = ''goal_0_1700000000.5'', g_text = JStr ''Test goal'', g_priority = 5,
                      g_status = ''failed'', g_created = ''2024-01-01T00:00:00'',
                      g_completed = None, g_attempts = 1 \<rparr>],
       gm_created = 1, gm_completed = 0, gm_failed = 1 \<rparr>"
  by code_simp

lemma update_first_goal_None:
  "(\<forall>g \<in> set gs. g_id g \<noteq> goal_id) \<Longrightarrow> update_first_goal f goal_id gs = None"
  by (induction gs) auto

lemma update_first_goal_Some:
  "i < length gs \<Longrightarrow> g_id (gs ! i) = goal_id \<Longrightarrow> (\<forall>j < i. g_id (gs ! j) \<noteq> goal_id) \<Longrightarrow>
     update_first_goal f goal_id gs = Some (gs[i := f (gs ! i)])"
proof (induction gs arbitrary: i)
  case Nil
  then show ?case by simp
next
  case (Cons g gs)
  show ?case
  proof (cases i)
    case 0
    with Cons.prems show ?thesis by simp
  next
    case (Suc n)
    with Cons.prems have "g_id g \<noteq> goal_id" by auto
    moreover have "update_first_goal f goal_id gs = Some (gs[n := f (gs ! n)])"
      using Cons.prems Suc by (intro Cons.IH) auto
    ultimately show ?thesis using Suc by simp
  qed
qed

text \<open>
  C7, as claimed, fails: a goal that \<^verbatim>\<open>fail\<close> moved to failed is moved on to completed by a
  later \<^verbatim>\<open>complete\<close>; none of the three methods reads the current status.
\<close>

theorem completed_after_failed:
  "map g_status (gm_goals one_failed_goal) = [STATUS_FAILED]
   \<and> map g_status (gm_goals (complete one_failed_goal ''goal_0_1700000000.5'' ''2024-01-02T00:00:00''))
       = [STATUS_COMPLETED]"
  by code_simp

text \<open>
  C7, amended. \<^verbatim>\<open>complete\<close>, \<^verbatim>\<open>fail\<close> and \<^verbatim>\<open>block\<close> rewrite the first goal that has the id,
  whatever its status: to completed (with the completion time), to failed with attempts
  one higher, to blocked. All other goals stay as they are, and with an id no goal has
  the store is unchanged.
\<close>

theorem status_calls_rewrite_first_match:
  "((\<forall>g \<in> set (gm_goals gm). g_id g \<noteq> goal_id) \<longrightarrow>
       complete gm goal_id now = gm \<and> fail gm goal_id = gm \<and> block gm goal_id = gm)
   \<and> (i < length (gm_goals gm) \<and> g_id (gm_goals gm ! i) = goal_id
        \<and> (\<forall>j < i. g_id (gm_goals gm ! j) \<noteq> goal_id) \<longrightarrow>
        gm_goals (complete gm goal_id now)
          = (gm_goals gm)[i := (gm_goals gm ! i)\<lparr> g_status := STATUS_COMPLETED, g_completed := Some now \<rparr>]
        \<and> gm_goals (fail gm goal_id)
          = (gm_goals gm)[i := (gm_goals gm ! i)\<lparr> g_status := STATUS_FAILED,
                                                   g_attempts := g_attempts (gm_goals gm ! i) + 1 \<rparr>]
        \<and> gm_goals (block gm goal_id)
          = (gm_goals gm)[i := (gm_goals gm ! i)\<lparr> g_status := STATUS_BLOCKED \<rparr>])"
proof (intro conjI impI)
  assume a: "\<forall>g \<in> set (gm_goals gm). g_id g \<noteq> goal_id"
  show "complete gm goal_id now = gm" "fail gm goal_id = gm" "block gm goal_id = gm"
    by (simp_all add: complete_def fail_def block_def update_first_goal_None [OF a])
next
  assume a: "i < length (gm_goals gm) \<and> g_id (gm_goals gm ! i) = goal_id
        \<and> (\<forall>j < i. g_id (gm_goals gm ! j) \<noteq> goal_id)"
  then have u: "\<And>f. update_first_goal f goal_id (gm_goals gm) = Some ((gm_goals gm)[i := f (gm_goals gm ! i)])"
    by (simp add: update_first_goal_Some)
  show "gm_goals (complete gm goal_id now)
          = (gm_goals gm)[i := (gm_goals gm ! i)\<lparr> g_status := STATUS_COMPLETED, g_completed := Some now \<rparr>]"
    by (simp add: complete_def u)
  show "gm_goals (fail gm goal_id)
          = (gm_goals gm)[i := (gm_goals gm ! i)\<lparr> g_status := STATUS_FAILED,
                                                   g_attempts := g_attempts (gm_goals gm ! i) + 1 \<rparr>]"
    by (simp add: fail_def u)
  show "gm_goals (block gm goal_id)
          = (gm_goals gm)[i := (gm_goals gm ! i)\<lparr> g_status := STATUS_BLOCKED \<rparr>]"
    by (simp add: block_def u)
qed

theorem status_calls_rewrite_first_match_witness:
  "\<not> (\<exists>g \<in> set (gm_goals one_failed_goal). g_id g = ''goal_7'')
   \<and> complete one_failed_goal ''goal_7'' ''2024-01-02T00:00:00'' = one_failed_goal
   \<and> 0 < length (gm_goals one_failed_goal)
   \<and> g_id (gm_goals one_failed_goal ! 0) = ''goal_0_1700000000.5''
   \<and> map g_status (gm_goals (complete one_failed_goal ''goal_0_1700000000.5'' ''2024-01-02T00:00:00''))
       = [''completed'']
   \<and> map g_attempts (gm_goals (fail one_failed_goal ''goal_0_1700000000.5'')) = [2]"
proof -
  have h1: "\<forall>g \<in> set (gm_goals one_failed_goal). g_id g \<noteq> ''goal_7''"
    by (simp add: one_failed_goal_value)
  have h2: "0 < length (gm_goals one_failed_goal)
       \<and> g_id (gm_goals one_failed_goal ! 0) = ''goal_0_1700000000.5''
       \<and> (\<forall>j < (0::nat). g_id (gm_goals one_failed_goal ! j) \<noteq> ''goal_0_1700000000.5'')"
    by (simp add: one_failed_goal_value)
  from status_calls_rewrite_first_match [of one_failed_goal "''goal_7''" "''2024-01-02T00:00:00''"] h1
  have c1: "complete one_failed_goal ''goal_7'' ''2024-01-02T00:00:00'' = one_failed_goal"
    by blast
  from status_calls_rewrite_first_match
         [of one_failed_goal "''goal_0_1700000000.5''" "''2024-01-02T00:00:00''" 0] h2
  have c2: "map g_status (gm_goals (complete one_failed_goal ''goal_0_1700000000.5'' ''2024-01-02T00:00:00''))
       = [''completed'']"
    and c3: "map g_attempts (gm_goals (fail one_failed_goal ''goal_0_1700000000.5'')) = [2]"
    by (simp_all add: one_failed_goal_value STATUS_COMPLETED_def)
  from h1 c1 h2 c2 c3 show ?thesis by blast
qed

section \<open>Results about the decision engine\<close>

lemma upt_3: "[0..<nat 3] = [0, 1, 2]"
  by (simp add: upt_rec)

lemma create_completion_cases:
  "create_completion env prompt w =
     (case env_create env (p_calls (w_state w)) prompt of
        Inr t \<Rightarrow> (Inr (Some t), after_requests 1 [] w)
      | Inl e0 \<Rightarrow>
          (case env_create env (p_calls (w_state w) + 1) prompt of
             Inr t \<Rightarrow> (Inr (Some t), after_requests 2 [1] w)
           | Inl e1 \<Rightarrow>
               (case env_create env (p_calls (w_state w) + 2) prompt of
                  Inr t \<Rightarrow> (Inr (Some t), after_requests 3 [1, 2] w)
                | Inl e2 \<Rightarrow>
                    (Inl (PyExc APIError (''API request failed: '' @ exc_str e2)),
                     after_requests 3 [1, 2] w))))"
  unfolding create_completion_def retry_def upt_3
  by (simp add: completion_request_def time_sleep_def upd_state_def after_requests_def Let_def
           split: sum.splits)

lemma decide_action_with_key:
  "env_api_key env \<Longrightarrow>
     decide_action env context memory goals meta_dump w =
       (case create_completion env (enhanced_context env context memory goals meta_dump) w of
          (Inl e, w') \<Rightarrow>
            (Inr (Some (error_decision (exc_str e))),
             upd_state (\<lambda>s. s\<lparr> p_failed := p_failed s + 1 \<rparr>) w')
        | (Inr None, w') \<Rightarrow>
            (Inr (Some (error_decision ''NoneType object has no attribute choices'')),
             upd_state (\<lambda>s. s\<lparr> p_failed := p_failed s + 1 \<rparr>) w')
        | (Inr (Some content), w') \<Rightarrow>
            (case decide_from_content env content w' of (decision, w'') \<Rightarrow> (Inr (Some decision), w'')))"
  unfolding decide_action_def retry_def upt_3 measure_time_def
  by (simp add: decide_action_body_def split: prod.splits sum.splits option.splits)


lemma backoff_waits_simps:
  "backoff_waits 0 = []" "backoff_waits (Suc 0) = [1]" "backoff_waits 2 = [1, 2]"
  by (simp_all add: backoff_waits_def upt_rec)

lemma less_3_cases: "j < (3::nat) \<Longrightarrow> j = 0 \<or> j = 1 \<or> j = 2"
  by arith

lemma create_completion_after_failures:
  assumes "j < 3"
    and "\<forall>i < j. isl (env_create env (p_calls (w_state w) + i) prompt)"
    and "env_create env (p_calls (w_state w) + j) prompt = Inr content"
  shows "create_completion env prompt w
           = (Inr (Some content), after_requests (j + 1) (backoff_waits j) w)"
proof -
  from less_3_cases [OF assms(1)] show ?thesis
  proof (elim disjE)
    assume "j = 0"
    with assms(3) show ?thesis
      by (simp add: create_completion_cases backoff_waits_simps)
  next
    assume j: "j = 1"
    with assms(2) obtain e0 where "env_create env (p_calls (w_state w)) prompt = Inl e0"
      by (cases "env_create env (p_calls (w_state w)) prompt") auto
    then show ?thesis using assms(3) j
      by (simp add: create_completion_cases backoff_waits_simps numeral_2_eq_2)
  next
    assume j: "j = 2"
    have "isl (env_create env (p_calls (w_state w) + 0) prompt)"
      "isl (env_create env (p_calls (w_state w) + 1) prompt)"
      using assms(2) [rule_format, of 0] assms(2) [rule_format, of 1] j by simp_all
    then obtain e0 e1 where "env_create env (p_calls (w_state w)) prompt = Inl e0"
      "env_create env (p_calls (w_state w) + 1) prompt = Inl e1"
      by (cases "env_create env (p_calls (w_state w)) prompt";
          cases "env_create env (p_calls (w_state w) + 1) prompt") auto
    with assms(3) j show ?thesis
      by (simp add: create_completion_cases backoff_waits_simps)
  qed
qed


lemma flaky_decision_value:
  "decide_action (example_env flaky_oracle reflect_loads) ''ctx'' [] [] ''{}'' process_init
   = (Inr (Some (JObj [(''action_type'', JStr ''reflection''), (''confidence'', JNum (1 / 2)),
                       (''actions'', JArr []), (''goals_update'', JArr [])])),
      \<lparr> w_sleeps = [1],
        w_state = \<lparr> p_calls = 2, p_parse_failed = 0, p_failed = 0,
                    p_confidences = [JNum (1 / 2)] \<rparr> \<rparr>)"
  by code_simp

lemma dead_decision_value:
  "decide_action (example_env dead_oracle reflect_loads) ''ctx'' [] [] ''{}'' process_init
   = (Inr (Some (error_decision ''API request failed: timeout'')),
      \<lparr> w_sleeps = [1, 2],
        w_state = \<lparr> p_calls = 3, p_parse_failed = 0, p_failed = 1, p_confidences = [] \<rparr> \<rparr>)"
  by code_simp

lemma prose_decision_value:
  "decide_action prose_env ''ctx'' [] [] ''{}'' process_init
   = (Inr (Some (error_decision ''Error parsing response'')),
      \<lparr> w_sleeps = [],
        w_state = \<lparr> p_calls = 1, p_parse_failed = 1, p_failed = 0, p_confidences = [] \<rparr> \<rparr>)"
  by code_simp




text \<open>
  C5. With the API key set, an oracle answer that \<^verbatim>\<open>json.loads\<close> rejects gives, without an
  exception, the Decision with analysis "Error parsing response", action\_type "error",
  empty actions and goals\_update and confidence 0.0. No request follows that answer: the
  request counter stands one above the index of the answered request, and the only waits
  are those after requests that failed before it.
\<close>

theorem non_json_gives_error_decision:
  "env_api_key env \<and> j < 3
     \<and> (\<forall>i < j. isl (env_create env (p_calls (w_state w) + i)
                         (enhanced_context env context memory goals meta_dump)))
     \<and> env_create env (p_calls (w_state w) + j)
           (enhanced_context env context memory goals meta_dump) = Inr content
     \<and> env_json_loads env content = None \<longrightarrow>
   decide_action env context memory goals meta_dump w
     = (Inr (Some (JObj [(''analysis'', JStr ''Error parsing response''),
                          (''action_type'', JStr ''error''), (''actions'', JArr []),
                          (''goals_update'', JArr []), (''confidence'', JNum 0)])),
        upd_state (\<lambda>s. s\<lparr> p_parse_failed := p_parse_failed s + 1 \<rparr>)
          (after_requests (j + 1) (backoff_waits j) w))"
proof
  assume a: "env_api_key env \<and> j < 3
     \<and> (\<forall>i < j. isl (env_create env (p_calls (w_state w) + i)
                         (enhanced_context env context memory goals meta_dump)))
     \<and> env_create env (p_calls (w_state w) + j)
           (enhanced_context env context memory goals meta_dump) = Inr content
     \<and> env_json_loads env content = None"
  then have k: "env_api_key env" by simp
  from a have "create_completion env (enhanced_context env context memory goals meta_dump) w
           = (Inr (Some content), after_requests (j + 1) (backoff_waits j) w)"
    by (intro create_completion_after_failures) simp_all
  with a show "decide_action env context memory goals meta_dump w
     = (Inr (Some (JObj [(''analysis'', JStr ''Error parsing response''),
                          (''action_type'', JStr ''error''), (''actions'', JArr []),
                          (''goals_update'', JArr []), (''confidence'', JNum 0)])),
        upd_state (\<lambda>s. s\<lparr> p_parse_failed := p_parse_failed s + 1 \<rparr>)
          (after_requests (j + 1) (backoff_waits j) w))"
    by (simp add: decide_action_with_key [OF k] decide_from_content_def error_decision_def)
qed

theorem non_json_gives_error_decision_witness:
  "env_api_key prose_env
   \<and> env_create prose_env 0 (enhanced_context prose_env ''ctx'' [] [] ''{}'')
        = Inr ''I think we should refactor.''
   \<and> env_json_loads prose_env ''I think we should refactor.'' = None
   \<and> fst (decide_action prose_env ''ctx'' [] [] ''{}'' process_init)
        = Inr (Some (JObj [(''analysis'', JStr ''Error parsing response''),
                            (''action_type'', JStr ''error''), (''actions'', JArr []),
                            (''goals_update'', JArr []), (''confidence'', JNum 0)]))
   \<and> p_calls (w_state (snd (decide_action prose_env ''ctx'' [] [] ''{}'' process_init))) = 1
   \<and> w_sleeps (snd (decide_action prose_env ''ctx'' [] [] ''{}'' process_init)) = []"
proof -
  have c0: "p_calls (w_state process_init) = 0" "w_sleeps process_init = []"
    by (simp_all add: process_init_def)
  have h: "env_api_key prose_env"
    "env_create prose_env 0 (enhanced_context prose_env ''ctx'' [] [] ''{}'')
        = Inr ''I think we should refactor.''"
    "env_json_loads prose_env ''I think we should refactor.'' = None"
    by (simp_all add: prose_env_def example_env_def)
  then have pre: "env_api_key prose_env \<and> 0 < (3::nat)
     \<and> (\<forall>i < 0. isl (env_create prose_env (p_calls (w_state process_init) + i)
                         (enhanced_context prose_env ''ctx'' [] [] ''{}'')))
     \<and> env_create prose_env (p_calls (w_state process_init) + 0)
           (enhanced_context prose_env ''ctx'' [] [] ''{}'') = Inr ''I think we should refactor.''
     \<and> env_json_loads prose_env ''I think we should refactor.'' = None"
    by (simp add: c0)
  note t = non_json_gives_error_decision
      [of prose_env 0 process_init "''ctx''" "[]" "[]" "''{}''" "''I think we should refactor.''",
       THEN mp, OF pre]
  have "fst (decide_action prose_env ''ctx'' [] [] ''{}'' process_init)
        = Inr (Some (JObj [(''analysis'', JStr ''Error parsing response''),
                            (''action_type'', JStr ''error''), (''actions'', JArr []),
                            (''goals_update'', JArr []), (''confidence'', JNum 0)]))"
    "p_calls (w_state (snd (decide_action prose_env ''ctx'' [] [] ''{}'' process_init))) = 1"
    "w_sleeps (snd (decide_action prose_env ''ctx'' [] [] ''{}'' process_init)) = []"
    by (simp_all add: t after_requests_def upd_state_def c0 backoff_waits_simps)
  with h show ?thesis by simp
qed








section \<open>Results about the orchestration loop\<close>


























lemma second_decision_dispatch_raises:
  "fst (dispatch second_fails_env
          (validate_result [(''analysis'', JStr ''look it up''), (''action_type'', JStr ''research''),
                            (''actions'', JNull)]) w)
     = Inl (PyExc TypeError ''object is not iterable'')"
  by (simp add: dispatch_def validate_result_def setdefault_def dict_get_def dict_get_default_def
        handle_research_def for_each_guarded_def)

lemma three_iteration_run_value:
  "map (\<lambda>ev. (ev_type ev, ev_content ev))
       (mm_memory (j_memory (w_state (run second_fails_env 3 False (jarvis_init [] [])))))
     = [(''decision'', ''think''), (''reflection'', ''insights''),
        (''decision'', ''look it up''), (''error'', ''Iteration failed: object is not iterable''),
        (''decision'', ''think''), (''reflection'', ''insights'')]
   \<and> j_published (w_state (run second_fails_env 3 False (jarvis_init [] [])))
     = [(ITERATION_STARTED, []), (ERROR_OCCURRED, [(''error'', JStr ''object is not iterable'')]),
        (ITERATION_COMPLETED, [])]
   \<and> map_option r_total_iterations (j_report (w_state (run second_fails_env 3 False (jarvis_init [] []))))
     = Some 3"
  by code_simp





end
